theory Spec2Isabelle
  imports Main "HOL-Library.Word"
begin

section \<open>Data model\<close>

type_synonym byte = "8 word"
type_synonym bytes = "byte list"

text \<open>
  The exceptions the code can raise.  \<open>URLError\<close> is what \<open>urllib.request.urlopen\<close> raises
  for an unreachable address and \<open>ConnectionResetError\<close> what a \<open>read\<close> of the response
  raises when the connection is lost (the transport errors), \<open>ReadError\<close> is \<open>tarfile.ReadError\<close>
  (the content is not a gzip-compressed tar stream: the format error); the others are the
  built-in exceptions of the interpreter.
\<close>

datatype error =
    URLError
  | ConnectionResetError
  | ReadError
  | IndexError
  | KeyError
  | AttributeError string
  | TypeError
  | JSONDecodeError

text \<open>The values \<open>json.loads\<close> builds.\<close>

datatype json =
    JNull
  | JBool bool
  | JInt int
  | JStr string
  | JList "json list"
  | JDict "(string \<times> json) list"

text \<open>
  The values that flow between \<open>_fetch_\<close>, \<open>fetch_tar_file_data\<close> and \<open>_process_\<close>:
  \<open>None\<close>, a \<open>bytes\<close> object, or the coroutine object that a call of the
  \<open>async def fetch_tar_file_data\<close> yields when it is not awaited (it records the argument
  of the call; none of the body has run).
\<close>

datatype pyval =
    PyNone
  | PyBytes bytes
  | PyCoroutine "string option"

subsection \<open>The archive as the tarfile module presents it\<close>

text \<open>
  A member of an opened archive: its stored name and what \<open>extractfile(...).read()\<close>
  delivers for it.  \<open>extractfile\<close> returns \<open>None\<close> for a member that is neither a regular
  file nor a link (a directory, a device), which is \<open>m_data = None\<close> here.
\<close>

record tar_member =
  m_name :: string
  m_data :: "bytes option"

text \<open>
  An open \<open>TarFile\<close>.  The members are loaded when they are first asked for
  (\<open>getnames\<close>), and loading can fail on a damaged archive after \<open>tarfile.open\<close> has
  succeeded.
\<close>

datatype tarfile = TarFile (loaded: "error + tar_member list")

definition getnames :: "tarfile \<Rightarrow> error + string list" where
  "getnames tfile =
     (case loaded tfile of Inl e \<Rightarrow> Inl e | Inr ms \<Rightarrow> Inr (map m_name ms))"

text \<open>
  \<open>TarFile.getmember\<close> searches the members from the end: if a name occurs more than once,
  its last occurrence is taken.  It raises \<open>KeyError\<close> for an unknown name.
\<close>

definition getmember :: "tarfile \<Rightarrow> string \<Rightarrow> error + tar_member" where
  "getmember tfile nm =
     (case loaded tfile of
        Inl e \<Rightarrow> Inl e
      | Inr ms \<Rightarrow>
          (case find (\<lambda>m. m_name m = nm) (rev ms) of
             None \<Rightarrow> Inl KeyError
           | Some m \<Rightarrow> Inr m))"

text \<open>\<open>tfile.extractfile(name)\<close>: the file object of the member, or \<open>None\<close>.\<close>

definition extractfile :: "tarfile \<Rightarrow> string \<Rightarrow> error + bytes option" where
  "extractfile tfile nm =
     (case getmember tfile nm of Inl e \<Rightarrow> Inl e | Inr m \<Rightarrow> Inr (m_data m))"

text \<open>\<open>str.endswith\<close>.\<close>

definition endswith :: "string \<Rightarrow> string \<Rightarrow> bool" where
  "endswith s suf \<longleftrightarrow>
     length suf \<le> length s \<and> drop (length s - length suf) s = suf"

subsection \<open>The libraries the provider calls\<close>

text \<open>
  The network, the gzip/tar decoder and the JSON parser are not part of this repository;
  they are parameters of the model.  \<open>urlopen\<close> gives, for an address, either the error of
  the connection attempt or the response; \<open>tarfile_open\<close> is
  \<open>tarfile.open(fileobj=..., mode="r:gz")\<close> on the bytes the file object holds from its
  current position on; \<open>json_loads\<close> is \<open>json.loads\<close> on a \<open>bytes\<close> object.
\<close>

text \<open>
  A response: the bytes of its body, and for each \<open>read\<close> of the response, counted from
  0, the exception it raises, if it raises one (the connection is lost, the server sends
  less than it announced).
\<close>

datatype response = Response (resp_body: bytes) (read_error: "nat \<Rightarrow> error option")

record env =
  urlopen :: "string \<Rightarrow> error + response"
  tarfile_open :: "bytes \<Rightarrow> error + tarfile"
  json_loads :: "bytes \<Rightarrow> error + json"

subsection \<open>What one call does, in order\<close>

datatype event =
    CallUrlopen string
  | StreamOpened
  | StreamRead nat
  | StreamReadRaised
  | StreamClose
  | BufNew
  | BufWrite nat
  | BufSeek nat
  | BufClose
  | CallTarOpen bytes
  | TarOpened
  | TarGetnames
  | TarExtractfile string
  | TarClose
  | LogWarning
  | LogDebug

text \<open>
  The local state of \<open>fetch_tar_file_data\<close>: the response \<open>ftpstream\<close> (the part of the body
  not read yet, which reads raise, how many reads there have been, and whether it has
  been closed), the \<open>BytesIO\<close> object \<open>tmpfile\<close> (its contents and its position), and the
  operations performed so far.
\<close>

record fstate =
  unread :: bytes
  raises :: "nat \<Rightarrow> error option"
  reads :: nat
  stream_closed :: bool
  tmpfile :: bytes
  tmppos :: nat
  trace :: "event list"

definition log :: "event \<Rightarrow> fstate \<Rightarrow> fstate" where
  "log e st = st\<lparr>trace := trace st @ [e]\<rparr>"

text \<open>
  \<open>ftpstream.read(n)\<close>: up to \<open>n\<close> bytes of the body, the empty bytes at its end, or the
  exception of this read; a closed response gives the empty bytes.
\<close>

definition stream_read :: "nat \<Rightarrow> fstate \<Rightarrow> (error + bytes) \<times> fstate" where
  "stream_read n st =
     (if stream_closed st then (Inr [], log (StreamRead 0) st)
      else
        (case raises st (reads st) of
           Some e \<Rightarrow> (Inl e, log StreamReadRaised (st\<lparr>reads := reads st + 1\<rparr>))
         | None \<Rightarrow>
             (let s = take n (unread st)
              in (Inr s,
                  log (StreamRead (length s))
                    (st\<lparr>unread := drop (length s) (unread st), reads := reads st + 1\<rparr>)))))"

definition stream_close :: "fstate \<Rightarrow> fstate" where
  "stream_close st = log StreamClose (st\<lparr>stream_closed := True\<rparr>)"

text \<open>\<open>tmpfile.write(s)\<close> writes at the position and advances it.\<close>

definition tmp_write :: "bytes \<Rightarrow> fstate \<Rightarrow> fstate" where
  "tmp_write s st =
     log (BufWrite (length s))
       (st\<lparr>tmpfile := take (tmppos st) (tmpfile st) @ s
                        @ drop (tmppos st + length s) (tmpfile st),
           tmppos := tmppos st + length s\<rparr>)"

definition tmp_seek :: "nat \<Rightarrow> fstate \<Rightarrow> fstate" where
  "tmp_seek n st = log (BufSeek n) (st\<lparr>tmppos := n\<rparr>)"

section \<open>fetch_tar_file_data\<close>

text \<open>
  The body of the \<open>while True\<close> loop (provider.py, lines 137 to 172) ends in one of four
  ways: the next iteration, \<open>break\<close>, \<open>return\<close>, or an exception (of the \<open>read\<close> or of
  an archive step).
\<close>

datatype exit =
    Broke fstate
  | Returned pyval fstate
  | Raised error fstate

datatype ctl = Continue fstate | Exit exit

definition loop_body :: "env \<Rightarrow> fstate \<Rightarrow> ctl" where
  "loop_body E st =
     (case stream_read 16384 st of
        (Inl e, st1) \<Rightarrow> Exit (Raised e st1)
      | (Inr s, st1) \<Rightarrow>
          (if s = [] then Exit (Broke st1)
           else
             let st2 = tmp_write s st1;
                 st3 = stream_close st2;
                 st4 = tmp_seek 0 st3;
                 content = drop (tmppos st4) (tmpfile st4);
                 st5 = log (CallTarOpen content) st4
             in (case tarfile_open E content of
                   Inl e \<Rightarrow> Exit (Raised e st5)
                 | Inr tfile \<Rightarrow>
                     (let st6 = log TarGetnames (log TarOpened st5)
                      in (case getnames tfile of
                            Inl e \<Rightarrow> Exit (Raised e st6)
                          | Inr names \<Rightarrow>
                              (let tfile_data =
                                     filter (\<lambda>filename. endswith filename ''.json'') names
                               in (case tfile_data of
                                     [] \<Rightarrow> Exit (Raised IndexError st6)
                                   | first # _ \<Rightarrow>
                                       (let st7 = log (TarExtractfile first) st6
                                        in (case extractfile tfile first of
                                              Inl e \<Rightarrow> Exit (Raised e st7)
                                            | Inr None \<Rightarrow>
                                                Exit (Raised (AttributeError ''read'') st7)
                                            | Inr (Some tfile_extract1_text) \<Rightarrow>
                                                Exit (Returned (PyBytes tfile_extract1_text)
                                                        (log BufClose
                                                           (log TarClose st7))))))))))))"

function while_true :: "env \<Rightarrow> fstate \<Rightarrow> exit" where
  "while_true E st =
     (case loop_body E st of Continue st' \<Rightarrow> while_true E st' | Exit out \<Rightarrow> out)"
  by pat_completeness auto
termination
  by (relation "{}")
     (auto simp: loop_body_def Let_def
           split: prod.splits if_splits sum.splits list.splits option.splits)

text \<open>
  The call, run to its end (the coroutine awaited; its body has no \<open>await\<close> of its
  own): the result, an exception or the returned value, and the operations performed.
  Leaving the loop by \<open>break\<close> reaches the end of the function, which returns \<open>None\<close>.
\<close>

definition fetch_tar_file_data :: "env \<Rightarrow> string \<Rightarrow> (error + pyval) \<times> event list" where
  "fetch_tar_file_data E u =
     (case urlopen E u of
        Inl e \<Rightarrow> (Inl e, [CallUrlopen u])
      | Inr ftpstream \<Rightarrow>
          (case while_true E
                  \<lparr>unread = resp_body ftpstream, raises = read_error ftpstream, reads = 0,
                   stream_closed = False, tmpfile = [], tmppos = 0,
                   trace = [CallUrlopen u, StreamOpened, BufNew]\<rparr> of
             Broke st \<Rightarrow> (Inr PyNone, trace st)
           | Returned v st \<Rightarrow> (Inr v, trace st)
           | Raised e st \<Rightarrow> (Inl e, trace st)))"

section \<open>The provider object\<close>

text \<open>
  The event and its configuration.  \<open>NginxCephFetcherConfig\<close> (lines 21 to 26) declares
  the field \<open>fetcher\<close> and no other; the event class declares
  \<open>config: NginxCephFetcherConfig = None\<close>.
\<close>

record fetcher_config =
  fetcher :: string

text \<open>The values an attribute of a configuration object can hold.\<close>

datatype cfgval =
    CfgNone
  | CfgStr string
  | CfgModel "(string \<times> string option) list"

record fetch_event =
  url :: "string option"
  config :: "fetcher_config option"

text \<open>An attribute of the object is assigned or not; reading one that is not raises.\<close>

datatype 'a attr = Unassigned | Assigned 'a

datatype connection = Connection

datatype transaction = Transaction connection bool

record provider =
  p_event :: fetch_event
  p_url :: "string option"
  p_connection :: "connection option attr"
  p_transaction :: "transaction option attr"

record retry_config =
  wait_random_exponential :: bool
  stop_after_attempt :: nat
  retry_unless_exception_type :: string
  reraise :: bool

definition RETRY_CONFIG :: retry_config where
  "RETRY_CONFIG =
     \<lparr>wait_random_exponential = True, stop_after_attempt = 10,
      retry_unless_exception_type = ''DataError'', reraise = True\<rparr>"

definition parse_event :: "fetch_event \<Rightarrow> fetch_event" where
  "parse_event event = \<lparr>url = url event, config = config event\<rparr>"

text \<open>
  \<open>__init__\<close> only calls the constructor of the host framework's base class, which keeps
  the parsed event as \<open>_event\<close> and its address as \<open>_url\<close>.  Nothing assigns
  \<open>_connection\<close> or \<open>_transaction\<close> there.
\<close>

definition init :: "fetch_event \<Rightarrow> provider" where
  "init event =
     \<lparr>p_event = parse_event event, p_url = url event,
      p_connection = Unassigned, p_transaction = Unassigned\<rparr>"

text \<open>\<open>.dict(exclude_none=True)\<close> of the connection parameters.\<close>

definition dict_exclude_none :: "(string \<times> string option) list \<Rightarrow> (string \<times> string) list" where
  "dict_exclude_none p =
     concat (map (\<lambda>(k, v). case v of None \<Rightarrow> [] | Some x \<Rightarrow> [(k, x)]) p)"

text \<open>
  Reading an attribute of \<open>self._event.config\<close>: \<open>None\<close> has no attributes, and a
  configuration object has the one field its class declares.
\<close>

definition getattr_config :: "fetcher_config option \<Rightarrow> string \<Rightarrow> error + cfgval" where
  "getattr_config cfg a =
     (case cfg of
        None \<Rightarrow> Inl (AttributeError a)
      | Some c \<Rightarrow> if a = ''fetcher'' then Inr (CfgStr (fetcher c)) else Inl (AttributeError a))"

text \<open>
  \<open>__aenter__\<close> (lines 85 to 99), here \<open>aenter\<close>.  Line 89 reads
  \<open>self._event.config.connection_params\<close>.  The call of \<open>asyncpg.connect\<close> is commented
  out in the source; line 96 reads \<open>self._connection\<close> all the same.
\<close>

definition aenter :: "provider \<Rightarrow> error + provider" where
  "aenter self =
     (let dsn = url (p_event self) in
      case getattr_config (config (p_event self)) ''connection_params'' of
        Inl e \<Rightarrow> Inl e
      | Inr v \<Rightarrow>
          (case (case v of
                   CfgNone \<Rightarrow> Inr []
                 | CfgModel p \<Rightarrow> Inr (dict_exclude_none p)
                 | CfgStr _ \<Rightarrow> Inl (AttributeError ''dict'')) of
             Inl e \<Rightarrow> Inl e
           | Inr params \<Rightarrow>
               (case p_connection self of
                  Unassigned \<Rightarrow> Inl (AttributeError ''_connection'')
                | Assigned None \<Rightarrow> Inl (AttributeError ''transaction'')
                | Assigned (Some c) \<Rightarrow>
                    Inr (self\<lparr>p_transaction := Assigned (Some (Transaction c True))\<rparr>))))"

text \<open>\<open>__aexit__\<close> (lines 101 to 107), here \<open>aexit\<close>.\<close>

definition aexit :: "provider \<Rightarrow> error + provider" where
  "aexit self =
     (case p_transaction self of
        Unassigned \<Rightarrow> Inl (AttributeError ''_transaction'')
      | Assigned t \<Rightarrow>
          (case p_connection self of
             Unassigned \<Rightarrow> Inl (AttributeError ''_connection'')
           | Assigned c \<Rightarrow> Inr self))"

text \<open>
  \<open>_fetch_\<close> (lines 109 to 122), here \<open>fetch\<close>.  Line 121 calls the coroutine function
  \<open>fetch_tar_file_data\<close> without \<open>await\<close>: the value of the call is the coroutine object.
\<close>

definition fetch :: "provider \<Rightarrow> (error + pyval) \<times> event list" where
  "fetch self =
     (if url (p_event self) = None then (Inr PyNone, [LogWarning])
      else (Inr (PyCoroutine (p_url self)), [LogDebug]))"

text \<open>
  \<open>_process_\<close> (lines 124 to 130), here \<open>process\<close>: \<open>json.loads\<close> raises \<open>TypeError\<close> for an argument
  that is not a string or a bytes object.
\<close>

definition process :: "env \<Rightarrow> pyval \<Rightarrow> error + json" where
  "process E data =
     (case data of PyBytes b \<Rightarrow> json_loads E b | _ \<Rightarrow> Inl TypeError)"

text \<open>The fetch followed by the processing step.\<close>

definition fetch_then_process :: "env \<Rightarrow> string \<Rightarrow> error + json" where
  "fetch_then_process E u =
     (case fst (fetch_tar_file_data E u) of
        Inl e \<Rightarrow> Inl e
      | Inr data \<Rightarrow> process E data)"

section \<open>Reading a run\<close>

text \<open>Attempts to open the network stream, whatever the address.\<close>

fun is_urlopen :: "event \<Rightarrow> bool" where
  "is_urlopen (CallUrlopen _) = True"
| "is_urlopen _ = False"

text \<open>Reads of the network stream.\<close>

fun is_read :: "event \<Rightarrow> bool" where
  "is_read (StreamRead _) = True"
| "is_read _ = False"


text \<open>
  The operations up to the call of \<open>tarfile.open\<close>, when the first \<open>read\<close> has delivered
  the bytes \<open>s\<close>.
\<close>

definition first_steps :: "string \<Rightarrow> bytes \<Rightarrow> event list" where
  "first_steps u s =
     [CallUrlopen u, StreamOpened, BufNew, StreamRead (length s), BufWrite (length s),
      StreamClose, BufSeek 0, CallTarOpen s]"

text \<open>
  The methods a caller can invoke on a provider, and the object after a call.  Only
  \<open>__aenter__\<close> contains an assignment to an attribute (line 96); a call that raises
  before it leaves the object as it was.
\<close>

datatype call = Aenter | Aexit | Fetch | Process pyval | FetchTarFileData string

fun step :: "provider \<Rightarrow> call \<Rightarrow> provider" where
  "step self Aenter = (case aenter self of Inl _ \<Rightarrow> self | Inr self' \<Rightarrow> self')"
| "step self Aexit = (case aexit self of Inl _ \<Rightarrow> self | Inr self' \<Rightarrow> self')"
| "step self _ = self"

section \<open>Example environments\<close>

text \<open>\<open>str.encode\<close> on ASCII text.\<close>

definition encode :: "string \<Rightarrow> bytes" where
  "encode s = map of_char s"

text \<open>
  A server that answers every request with the bytes \<open>archive\<close>, and an archive library
  that opens exactly these bytes, as \<open>tfile\<close>, and rejects every other content.
\<close>

definition served :: "bytes \<Rightarrow> tarfile \<Rightarrow> (bytes \<Rightarrow> error + json) \<Rightarrow> env" where
  "served archive tfile loads =
     \<lparr>urlopen = (\<lambda>_. Inr (Response archive (\<lambda>_. None))),
      tarfile_open = (\<lambda>content. if content = archive then Inr tfile else Inl ReadError),
      json_loads = loads\<rparr>"

text \<open>No address can be reached.\<close>

definition unreachable :: env where
  "unreachable =
     \<lparr>urlopen = (\<lambda>_. Inl URLError),
      tarfile_open = (\<lambda>_. Inl ReadError),
      json_loads = (\<lambda>_. Inl JSONDecodeError)\<rparr>"

text \<open>A parser that knows one document.\<close>

definition loads_a1 :: "bytes \<Rightarrow> error + json" where
  \<open>loads_a1 b =
     (if b = encode ''{"a":1}'' then Inr (JDict [(''a'', JInt 1)]) else Inl JSONDecodeError)\<close>



text \<open>
  Stand-ins for the bytes of an archive: one that a single read of 16384 bytes takes
  whole, and one of 16385 bytes.
\<close>

definition small :: bytes where
  "small = [0x1f, 0x8b, 0x08, 0x00]"

definition big :: bytes where
  "big = replicate 16385 0x1f"

definition one_member :: "tar_member list" where
  \<open>one_member = [\<lparr>m_name = ''data.json'', m_data = Some (encode ''{"a":1}'')\<rparr>]\<close>

definition three_members :: "tar_member list" where
  \<open>three_members =
     [\<lparr>m_name = ''readme.txt'', m_data = Some (encode ''hello'')\<rparr>,
      \<lparr>m_name = ''data.json'', m_data = Some (encode ''{"a":1}'')\<rparr>,
      \<lparr>m_name = ''extra.json'', m_data = Some (encode ''[]'')\<rparr>]\<close>

text \<open>An archive to which a newer \<open>data.json\<close> has been appended.\<close>

definition appended_members :: "tar_member list" where
  "appended_members =
     [\<lparr>m_name = ''data.json'', m_data = Some (encode ''1'')\<rparr>,
      \<lparr>m_name = ''data.json'', m_data = Some (encode ''2'')\<rparr>]"

definition no_json_members :: "tar_member list" where
  "no_json_members = [\<lparr>m_name = ''readme.txt'', m_data = Some (encode ''hello'')\<rparr>]"

definition event_with_config :: fetch_event where
  "event_with_config =
     \<lparr>url = Some ''http://ceph/bundle.tar.gz'',
      config = Some \<lparr>fetcher = ''NginxCephFetchProvider''\<rparr>\<rparr>"

definition event_without_config :: fetch_event where
  "event_without_config = \<lparr>url = Some ''http://ceph/bundle.tar.gz'', config = None\<rparr>"

section \<open>The runs of fetch_tar_file_data\<close>

lemmas fetch_defs =
  fetch_tar_file_data_def loop_body_def stream_read_def stream_close_def
  tmp_write_def tmp_seek_def log_def Let_def

text \<open>
  Every call ends in one of five ways.  The loop body is run once: the archive is
  opened on what the first \<open>read\<close> delivered.
\<close>

lemma fetch_tar_file_data_cases:
  obtains
    (no_stream) e where "urlopen E u = Inl e"
      and "fetch_tar_file_data E u = (Inl e, [CallUrlopen u])"
  | (read_raised) body err e where "urlopen E u = Inr (Response body err)"
      and "err 0 = Some e"
      and "fetch_tar_file_data E u =
             (Inl e, [CallUrlopen u, StreamOpened, BufNew, StreamReadRaised])"
  | (no_bytes) err where "urlopen E u = Inr (Response [] err)" and "err 0 = None"
      and "fetch_tar_file_data E u =
             (Inr PyNone, [CallUrlopen u, StreamOpened, BufNew, StreamRead 0])"
  | (raised) body err e rest where "urlopen E u = Inr (Response body err)"
      and "err 0 = None" and "body \<noteq> []"
      and "fetch_tar_file_data E u = (Inl e, first_steps u (take 16384 body) @ rest)"
      and "rest = [] \<or> rest = [TarOpened, TarGetnames]
             \<or> (\<exists>n. rest = [TarOpened, TarGetnames, TarExtractfile n])"
  | (returned) body err b n where "urlopen E u = Inr (Response body err)"
      and "err 0 = None" and "body \<noteq> []"
      and "fetch_tar_file_data E u =
             (Inr (PyBytes b),
              first_steps u (take 16384 body)
                @ [TarOpened, TarGetnames, TarExtractfile n, TarClose, BufClose])"
proof (cases "urlopen E u")
  case (Inl e)
  then show ?thesis using no_stream by (simp add: fetch_defs)
next
  case (Inr r)
  obtain body err where r: "r = Response body err" by (cases r)
  with Inr have resp: "urlopen E u = Inr (Response body err)" by simp
  show ?thesis
  proof (cases "err 0")
    case (Some e)
    with resp show ?thesis using read_raised by (simp add: fetch_defs)
  next
    case ok: None
    show ?thesis
    proof (cases "body = []")
      case True
      with resp ok show ?thesis using no_bytes by (simp add: fetch_defs)
    next
      case nonempty: False
      show ?thesis
      proof (cases "tarfile_open E (take 16384 body)")
        case (Inl e)
        with resp ok nonempty have
          "fetch_tar_file_data E u = (Inl e, first_steps u (take 16384 body) @ [])"
          by (simp add: fetch_defs first_steps_def)
        with resp ok nonempty show ?thesis using raised by blast
      next
        case tfile: (Inr tfile)
        show ?thesis
        proof (cases "getnames tfile")
          case (Inl e)
          with resp ok nonempty tfile have
            "fetch_tar_file_data E u =
               (Inl e, first_steps u (take 16384 body) @ [TarOpened, TarGetnames])"
            by (simp add: fetch_defs first_steps_def)
          with resp ok nonempty show ?thesis using raised by blast
        next
          case names: (Inr names)
          show ?thesis
          proof (cases "filter (\<lambda>filename. endswith filename ''.json'') names")
            case Nil
            with resp ok nonempty tfile names have
              "fetch_tar_file_data E u =
                 (Inl IndexError, first_steps u (take 16384 body) @ [TarOpened, TarGetnames])"
              by (simp add: fetch_defs first_steps_def)
            with resp ok nonempty show ?thesis using raised by blast
          next
            case first: (Cons first others)
            show ?thesis
            proof (cases "extractfile tfile first")
              case (Inl e)
              with resp ok nonempty tfile names first have
                "fetch_tar_file_data E u =
                   (Inl e, first_steps u (take 16384 body)
                             @ [TarOpened, TarGetnames, TarExtractfile first])"
                by (simp add: fetch_defs first_steps_def)
              with resp ok nonempty show ?thesis using raised by blast
            next
              case extracted: (Inr extracted)
              show ?thesis
              proof (cases extracted)
                case None
                with resp ok nonempty tfile names first extracted have
                  "fetch_tar_file_data E u =
                     (Inl (AttributeError ''read''),
                      first_steps u (take 16384 body)
                        @ [TarOpened, TarGetnames, TarExtractfile first])"
                  by (simp add: fetch_defs first_steps_def)
                with resp ok nonempty show ?thesis using raised by blast
              next
                case (Some b)
                with resp ok nonempty tfile names first extracted have
                  "fetch_tar_file_data E u =
                     (Inr (PyBytes b),
                      first_steps u (take 16384 body)
                        @ [TarOpened, TarGetnames, TarExtractfile first, TarClose, BufClose])"
                  by (simp add: fetch_defs first_steps_def)
                with resp ok nonempty show ?thesis using returned by blast
              qed
            qed
          qed
        qed
      qed
    qed
  qed
qed

subsection \<open>Lists of members\<close>

lemma filter_names_empty:
  "\<forall>m \<in> set ms. \<not> P (m_name m) \<Longrightarrow> filter P (map m_name ms) = []"
  by (induction ms) auto

lemma find_name_filter:
  "find (\<lambda>m. P (m_name m)) ms = Some m \<Longrightarrow>
   \<exists>rest. filter P (map m_name ms) = m_name m # rest"
  by (induction ms) (auto split: if_splits)

lemma find_append_split:
  "find P (xs @ ys) = (case find P xs of None \<Rightarrow> find P ys | Some x \<Rightarrow> Some x)"
  by (induction xs) auto

lemma find_rev_filter:
  "find P (rev xs) = (if filter P xs = [] then None else Some (last (filter P xs)))"
  by (induction xs) (auto simp: find_append_split)

lemma find_in_set: "find P xs = Some x \<Longrightarrow> x \<in> set xs \<and> P x"
  by (induction xs) (auto split: if_splits)

lemma distinct_name_unique:
  "distinct (map f xs) \<Longrightarrow> x \<in> set xs \<Longrightarrow> filter (\<lambda>y. f y = f x) xs = [x]"
  by (induction xs) (auto simp: filter_empty_conv image_iff)

section \<open>Properties\<close>

subsection \<open>The round trip\<close>

text \<open>
  An archive that the first \<open>read\<close> takes whole, with one member whose name ends with
  \<open>.json\<close>: the fetch followed by the processing step gives what the parser makes of the
  member's bytes.
\<close>

lemma roundtrip_within_one_read:
  assumes "urlopen E u = Inr (Response archive err)" "err 0 = None"
    "archive \<noteq> []" "length archive \<le> 16384"
    "tarfile_open E archive = Inr (TarFile (Inr [\<lparr>m_name = nm, m_data = Some doc\<rparr>]))"
    "endswith nm ''.json''" "json_loads E doc = Inr v"
  shows "fetch_then_process E u = Inr v"
  using assms
  by (simp add: fetch_then_process_def process_def fetch_defs getnames_def extractfile_def
        getmember_def)

lemma roundtrip_a1:
  "fetch_then_process (served small (TarFile (Inr one_member)) loads_a1)
     ''http://ceph/bundle.tar.gz'' = Inr (JDict [(''a'', JInt 1)])"
  by (rule roundtrip_within_one_read
             [where archive = small and nm = "''data.json''" and err = "\<lambda>_. None"])
     (simp_all add: served_def small_def one_member_def endswith_def loads_a1_def)

text \<open>
  Claim C1.  The round trip is claimed for every archive.  The code opens the archive
  inside the read loop, on what the first \<open>read(16384)\<close> delivered: for a response of
  more than 16384 bytes the fetch followed by the processing step gives what it would
  give if the response had ended after its first 16384 bytes.  The bytes after them are
  never read, so a well-formed archive of that size does not come back as the value
  that was encoded.
\<close>

theorem fetch_then_process_first_read_only:
  assumes "urlopen E u = Inr (Response body err)" "err 0 = None" "16384 < length body"
  shows "fetch_then_process E u =
         fetch_then_process (E\<lparr>urlopen := \<lambda>_. Inr (Response (take 16384 body) err)\<rparr>) u"
  using assms
  by (simp add: fetch_then_process_def fetch_defs process_def
        split: sum.splits list.splits option.splits)

theorem fetch_then_process_first_read_only_witness:
  "urlopen (served big (TarFile (Inr one_member)) loads_a1) ''http://ceph/bundle.tar.gz''
     = Inr (Response big (\<lambda>_. None)) \<and>
   16384 < length big \<and>
   tarfile_open (served big (TarFile (Inr one_member)) loads_a1) big
     = Inr (TarFile (Inr one_member)) \<and>
   fetch_then_process (served big (TarFile (Inr one_member)) loads_a1)
     ''http://ceph/bundle.tar.gz'' = Inl ReadError"
  using fetch_then_process_first_read_only
          [of "served big (TarFile (Inr one_member)) loads_a1"
              "''http://ceph/bundle.tar.gz''" big "\<lambda>_. None"]
  by (simp add: served_def big_def fetch_then_process_def fetch_defs)

subsection \<open>The coroutine that is not awaited\<close>

text \<open>
  Claim C2.  For an event whose address is not \<open>None\<close>, \<open>_fetch_\<close> returns the coroutine
  object of the call \<open>fetch_tar_file_data(self._url)\<close>, which it does not await, and not
  the bytes of a member; \<open>_process_\<close> on this value raises \<open>TypeError\<close> and gives no
  parsed JSON value.
\<close>

theorem fetch_returns_unawaited_coroutine:
  "url (p_event self) \<noteq> None \<Longrightarrow>
   fetch self = (Inr (PyCoroutine (p_url self)), [LogDebug]) \<and>
   process E (PyCoroutine (p_url self)) = Inl TypeError"
  by (simp add: fetch_def process_def)

theorem fetch_returns_unawaited_coroutine_witness:
  "url (p_event (init event_without_config)) \<noteq> None \<and>
   fetch (init event_without_config) =
     (Inr (PyCoroutine (Some ''http://ceph/bundle.tar.gz'')), [LogDebug]) \<and>
   process (served small (TarFile (Inr one_member)) loads_a1)
     (PyCoroutine (Some ''http://ceph/bundle.tar.gz'')) = Inl TypeError"
  using fetch_returns_unawaited_coroutine
          [of "init event_without_config" "served small (TarFile (Inr one_member)) loads_a1"]
  by (simp add: init_def parse_event_def event_without_config_def)

subsection \<open>No member with the suffix\<close>

text \<open>
  Claim C3.  The claim asks for an explicit format error when no member name ends with
  \<open>.json\<close>.  The code indexes the empty selection: for an archive that opens and has no
  such member the call raises \<open>IndexError\<close>, after the archive has been opened and its
  names listed, and closes neither the archive reader nor the buffer.
\<close>

theorem no_json_member_raises_IndexError:
  assumes "urlopen E u = Inr (Response body err)" "err 0 = None"
    "body \<noteq> []" "length body \<le> 16384"
    "tarfile_open E body = Inr tfile" "loaded tfile = Inr ms"
    "\<forall>m \<in> set ms. \<not> endswith (m_name m) ''.json''"
  shows "fetch_tar_file_data E u =
           (Inl IndexError, first_steps u body @ [TarOpened, TarGetnames])"
  using assms filter_names_empty [of ms "\<lambda>filename. endswith filename ''.json''"]
  by (simp add: fetch_defs getnames_def first_steps_def)

theorem no_json_member_raises_IndexError_witness:
  "fetch_tar_file_data (served small (TarFile (Inr no_json_members)) loads_a1)
     ''http://ceph/bundle.tar.gz'' =
     (Inl IndexError,
      first_steps ''http://ceph/bundle.tar.gz'' small @ [TarOpened, TarGetnames]) \<and>
   Inl IndexError \<noteq> (Inl ReadError :: error + pyval)"
  using no_json_member_raises_IndexError
          [of "served small (TarFile (Inr no_json_members)) loads_a1"
              "''http://ceph/bundle.tar.gz''" small "\<lambda>_. None"
              "TarFile (Inr no_json_members)" no_json_members]
  by (simp add: served_def small_def no_json_members_def endswith_def)

subsection \<open>Which member is returned\<close>

text \<open>
  Claim C4, as amended.  For an archive that the first \<open>read\<close> takes whole, the fetch
  takes the first name, in stored order, that ends with \<open>.json\<close>, and returns what the
  archive library extracts under this name, which is the last member stored under it.
  When the names of the members are distinct, this is the first member in stored order
  whose name ends with \<open>.json\<close>: for the members \<open>readme.txt\<close>, \<open>data.json\<close>,
  \<open>extra.json\<close> the content of \<open>data.json\<close>.
\<close>

theorem first_json_name_selected:
  assumes "urlopen E u = Inr (Response body err)" "err 0 = None"
    "body \<noteq> []" "length body \<le> 16384"
    "tarfile_open E body = Inr tfile" "loaded tfile = Inr ms"
    "find (\<lambda>m. endswith (m_name m) ''.json'') ms = Some m"
  shows "fst (fetch_tar_file_data E u) =
           (case m_data (last (filter (\<lambda>m'. m_name m' = m_name m) ms)) of
              None \<Rightarrow> Inl (AttributeError ''read'')
            | Some b \<Rightarrow> Inr (PyBytes b)) \<and>
         (distinct (map m_name ms) \<longrightarrow>
            fst (fetch_tar_file_data E u) =
              (case m_data m of
                 None \<Rightarrow> Inl (AttributeError ''read'')
               | Some b \<Rightarrow> Inr (PyBytes b)))"
proof -
  from assms(7) obtain rest where
    names: "filter (\<lambda>filename. endswith filename ''.json'') (map m_name ms) = m_name m # rest"
    using find_name_filter [of "\<lambda>filename. endswith filename ''.json''" ms m] by blast
  from assms(7) have mem: "m \<in> set ms" by (simp add: find_in_set)
  then have "filter (\<lambda>m'. m_name m' = m_name m) ms \<noteq> []"
    by (auto simp: filter_empty_conv)
  then have found: "find (\<lambda>m'. m_name m' = m_name m) (rev ms)
                      = Some (last (filter (\<lambda>m'. m_name m' = m_name m) ms))"
    by (simp add: find_rev_filter)
  have general: "fst (fetch_tar_file_data E u) =
           (case m_data (last (filter (\<lambda>m'. m_name m' = m_name m) ms)) of
              None \<Rightarrow> Inl (AttributeError ''read'')
            | Some b \<Rightarrow> Inr (PyBytes b))"
    using assms(1-6) names found
    by (simp add: fetch_defs getnames_def extractfile_def getmember_def split: option.splits)
  moreover have "distinct (map m_name ms) \<Longrightarrow>
      last (filter (\<lambda>m'. m_name m' = m_name m) ms) = m"
    using mem by (simp add: distinct_name_unique)
  ultimately show ?thesis by simp
qed

theorem first_json_name_selected_witness:
  \<open>distinct (map m_name three_members) \<and>
   fst (fetch_tar_file_data (served small (TarFile (Inr three_members)) loads_a1)
          ''http://ceph/bundle.tar.gz'') = Inr (PyBytes (encode ''{"a":1}''))\<close>
  using first_json_name_selected
          [of "served small (TarFile (Inr three_members)) loads_a1"
              "''http://ceph/bundle.tar.gz''" small "\<lambda>_. None"
              "TarFile (Inr three_members)" three_members "three_members ! 1"]
  by (simp add: served_def small_def three_members_def endswith_def)

text \<open>
  The claim as it was stated fails when a name is stored twice: the first member in
  stored order whose name ends with \<open>.json\<close> holds \<open>1\<close>, and the fetch returns \<open>2\<close>.
\<close>

theorem repeated_name_takes_last_member:
  "find (\<lambda>m. endswith (m_name m) ''.json'') appended_members
     = Some \<lparr>m_name = ''data.json'', m_data = Some (encode ''1'')\<rparr> \<and>
   fst (fetch_tar_file_data (served small (TarFile (Inr appended_members)) loads_a1)
          ''http://ceph/bundle.tar.gz'') = Inr (PyBytes (encode ''2'')) \<and>
   encode ''2'' \<noteq> encode ''1''"
  by (simp add: fetch_defs served_def small_def appended_members_def encode_def endswith_def
        getnames_def extractfile_def getmember_def)

subsection \<open>When the archive is opened\<close>

text \<open>
  Claim C5.  The claim asks that the whole body is in the buffer before the archive is
  opened.  In the code the archive is opened inside the loop, after the first
  \<open>read(16384)\<close>: for a body of more than 16384 bytes \<open>tarfile.open\<close> is called on the first
  16384 bytes, which are not the body, and this one read is the only read of the call.
\<close>

theorem archive_opened_after_first_read:
  assumes "urlopen E u = Inr (Response body err)" "err 0 = None" "16384 < length body"
  shows "take 8 (snd (fetch_tar_file_data E u)) = first_steps u (take 16384 body) \<and>
         filter is_read (snd (fetch_tar_file_data E u)) = [StreamRead 16384] \<and>
         take 16384 body \<noteq> body"
proof (cases E u rule: fetch_tar_file_data_cases)
  case (no_stream e)
  with assms show ?thesis by simp
next
  case (read_raised body' err' e)
  with assms show ?thesis by simp
next
  case (no_bytes err')
  with assms show ?thesis by simp
next
  case (raised body' err' e rest)
  from raised(5) raised(1,4) assms show ?thesis
    by (auto simp add: first_steps_def)
next
  case (returned body' err' b n)
  with assms show ?thesis by (auto simp add: first_steps_def)
qed

theorem archive_opened_after_first_read_witness:
  "urlopen (served big (TarFile (Inr three_members)) loads_a1) ''http://ceph/bundle.tar.gz''
     = Inr (Response big (\<lambda>_. None)) \<and>
   16384 < length big \<and>
   filter is_read
     (snd (fetch_tar_file_data (served big (TarFile (Inr three_members)) loads_a1)
             ''http://ceph/bundle.tar.gz'')) = [StreamRead 16384] \<and>
   take 8 (snd (fetch_tar_file_data (served big (TarFile (Inr three_members)) loads_a1)
                  ''http://ceph/bundle.tar.gz''))
     = first_steps ''http://ceph/bundle.tar.gz'' (replicate 16384 0x1f)"
  using archive_opened_after_first_read
          [of "served big (TarFile (Inr three_members)) loads_a1"
              "''http://ceph/bundle.tar.gz''" big "\<lambda>_. None"]
  by (simp add: served_def big_def)

subsection \<open>Closing what was opened\<close>




subsection \<open>An event without an address\<close>

text \<open>
  Claim C7, as amended.  When the address of the event is absent (\<open>None\<close>), \<open>_fetch_\<close>
  logs the warning and returns \<open>None\<close>: it raises nothing, opens no network stream and
  performs no archive operation.  An empty string is an address like any other.
\<close>

theorem missing_url_skips_fetch:
  "url (p_event self) = None \<Longrightarrow> fetch self = (Inr PyNone, [LogWarning])"
  by (simp add: fetch_def)

theorem missing_url_skips_fetch_witness:
  "url (p_event (init \<lparr>url = None, config = None\<rparr>)) = None \<and>
   fetch (init \<lparr>url = None, config = None\<rparr>) = (Inr PyNone, [LogWarning])"
  using missing_url_skips_fetch [of "init \<lparr>url = None, config = None\<rparr>"]
  by (simp add: init_def parse_event_def)

text \<open>
  The claim as it was stated fails on the empty address: no warning is logged, and the
  coroutine object of the call on the empty address is returned.
\<close>

theorem empty_url_no_warning:
  "url \<lparr>url = Some '''', config = None\<rparr> = Some '''' \<and>
   LogWarning \<notin> set (snd (fetch (init \<lparr>url = Some '''', config = None\<rparr>))) \<and>
   fst (fetch (init \<lparr>url = Some '''', config = None\<rparr>)) = Inr (PyCoroutine (Some ''''))"
  by (simp add: fetch_def init_def parse_event_def)

subsection \<open>An empty response\<close>

text \<open>
  Claim C10.  If the body of the response has no bytes, the first \<open>read\<close> gives the empty
  bytes, the loop is left by \<open>break\<close> and \<open>fetch_tar_file_data\<close> returns \<open>None\<close>: the
  archive is never opened, no member is selected, and no format error is raised for the
  content that is not an archive.
\<close>

theorem empty_response_returns_None:
  "urlopen E u = Inr (Response [] err) \<Longrightarrow> err 0 = None \<Longrightarrow>
   fetch_tar_file_data E u =
     (Inr PyNone, [CallUrlopen u, StreamOpened, BufNew, StreamRead 0])"
  by (simp add: fetch_defs)

theorem empty_response_returns_None_witness:
  "urlopen (served [] (TarFile (Inr [])) loads_a1) ''http://ceph/bundle.tar.gz''
     = Inr (Response [] (\<lambda>_. None)) \<and>
   fetch_tar_file_data (served [] (TarFile (Inr [])) loads_a1) ''http://ceph/bundle.tar.gz'' =
     (Inr PyNone,
      [CallUrlopen ''http://ceph/bundle.tar.gz'', StreamOpened, BufNew, StreamRead 0])"
  using empty_response_returns_None
          [of "served [] (TarFile (Inr [])) loads_a1" "''http://ceph/bundle.tar.gz''"
              "\<lambda>_. None"]
  by (simp add: served_def)

subsection \<open>One attempt to connect\<close>

text \<open>
  Claim C8.  One call of \<open>fetch_tar_file_data\<close> tries to open the network stream exactly
  once, whatever happens afterwards: fewer times than the ten attempts the declared
  \<open>RETRY_CONFIG\<close> would allow, which no call uses.  For an address that cannot be reached
  the error of \<open>urlopen\<close> is the outcome of the call, unchanged, after this one attempt.
\<close>

theorem single_attempt_no_retry:
  "length (filter is_urlopen (snd (fetch_tar_file_data E u))) = 1 \<and>
   length (filter is_urlopen (snd (fetch_tar_file_data E u))) < stop_after_attempt RETRY_CONFIG \<and>
   (urlopen E u = Inl e \<longrightarrow> fetch_tar_file_data E u = (Inl e, [CallUrlopen u]))"
proof (cases E u rule: fetch_tar_file_data_cases)
  case (no_stream e')
  then show ?thesis by (simp add: RETRY_CONFIG_def)
next
  case (read_raised body err e')
  then show ?thesis by (simp add: RETRY_CONFIG_def)
next
  case (no_bytes err)
  then show ?thesis by (simp add: RETRY_CONFIG_def)
next
  case (raised body err e' rest)
  from raised(5) raised(1,4) show ?thesis
    by (auto simp add: RETRY_CONFIG_def first_steps_def)
next
  case (returned body err b n)
  then show ?thesis by (simp add: RETRY_CONFIG_def first_steps_def)
qed

theorem single_attempt_no_retry_witness:
  "urlopen unreachable ''http://nowhere/'' = Inl URLError \<and>
   fetch_tar_file_data unreachable ''http://nowhere/'' =
     (Inl URLError, [CallUrlopen ''http://nowhere/''])"
  using single_attempt_no_retry [of unreachable "''http://nowhere/''" URLError]
  by (simp add: unreachable_def)

subsection \<open>The connection that is never made\<close>

lemma aenter_raises: "aenter self = Inl (AttributeError ''connection_params'')"
  by (simp add: aenter_def getattr_config_def split: option.splits)

lemma aexit_init: "aexit (init ev) = Inl (AttributeError ''_transaction'')"
  by (simp add: aexit_def init_def)

lemma step_init: "step (init ev) c = init ev"
  by (cases c) (simp_all add: aenter_raises aexit_init)

lemma calls_keep_init: "foldl step (init ev) calls = init ev"
  by (induction calls) (simp_all add: step_init)

text \<open>
  Claim C9, as amended.  After any sequence of calls on a new provider, \<open>_connection\<close>
  and \<open>_transaction\<close> are still unassigned, and \<open>_fetch_\<close> does not depend on
  \<open>_connection\<close>.  Every call of \<open>__aenter__\<close> raises \<open>AttributeError\<close>, and it does so
  on line 89, at \<open>config.connection_params\<close>, with or without a configuration in the
  event: line 96, which reads \<open>_connection\<close>, is not reached.  Every call of
  \<open>__aexit__\<close> raises \<open>AttributeError\<close> on the unassigned \<open>_transaction\<close>.
\<close>

theorem connection_never_assigned:
  "p_connection (foldl step (init ev) calls) = Unassigned \<and>
   p_transaction (foldl step (init ev) calls) = Unassigned \<and>
   fetch ((foldl step (init ev) calls)\<lparr>p_connection := c\<rparr>)
     = fetch (foldl step (init ev) calls) \<and>
   aenter (foldl step (init ev) calls) = Inl (AttributeError ''connection_params'') \<and>
   aexit (foldl step (init ev) calls) = Inl (AttributeError ''_transaction'')"
proof -
  have "fetch ((init ev)\<lparr>p_connection := c\<rparr>) = fetch (init ev)"
    by (simp add: fetch_def)
  moreover have "p_connection (init ev) = Unassigned" "p_transaction (init ev) = Unassigned"
    by (simp_all add: init_def)
  ultimately show ?thesis
    by (simp add: calls_keep_init aexit_init aenter_raises)
qed

theorem connection_never_assigned_witness:
  "p_connection (foldl step (init event_with_config) [Aenter, Fetch, Aexit]) = Unassigned \<and>
   aenter (foldl step (init event_with_config) [Aenter, Fetch, Aexit])
     = Inl (AttributeError ''connection_params'') \<and>
   aexit (foldl step (init event_with_config) [Aenter, Fetch, Aexit])
     = Inl (AttributeError ''_transaction'')"
  using connection_never_assigned [of event_with_config "[Aenter, Fetch, Aexit]"]
  by simp

text \<open>
  The claim as it was stated fails on every event, here one that carries a
  configuration: \<open>__aenter__\<close> raises at \<open>config.connection_params\<close>, an attribute
  the configuration class does not declare, and does not get to read \<open>_connection\<close>.
\<close>

theorem aenter_fails_before_connection:
  "aenter (init event_with_config) = Inl (AttributeError ''connection_params'') \<and>
   aenter (init event_with_config) \<noteq> Inl (AttributeError ''_connection'')"
  by (simp add: aenter_def getattr_config_def init_def parse_event_def event_with_config_def)

end
